theory Spec2Isabelle
  imports Main "HOL-Library.Word"
begin

section \<open>IF482 time telegram generator (src/if482.cpp)\<close>

text \<open>
  The file has three functions: \<open>if482_init\<close> (set-up), \<open>IF482_Out\<close> (the telegram
  encoder) and \<open>if482_loop\<close> (the worker task that is woken by the pulse interrupt and
  prints one telegram per shot). They are embedded below in this order of dependency:
  the encoder, the tick arithmetic of the worker, the set-up.
\<close>

subsection \<open>Types of the platform\<close>

text \<open>
  \<open>TickType_t\<close> is the 32-bit unsigned tick counter of the kernel; \<open>time_t\<close> holds
  seconds (32 bits on this platform). Both wrap around.
\<close>

type_synonym tick = "32 word"
type_synonym time_t = "32 word"

text \<open>The status enumeration of the time library, as \<open>timeStatus()\<close> returns it.\<close>

datatype timeStatus_t = timeNotSet | timeNeedsSync | timeSet

text \<open>
  The calendar fields of a time: what \<open>year(t)\<close>, \<open>month(t)\<close>, \<open>day(t)\<close>,
  \<open>weekday(t)\<close>, \<open>hour(t)\<close>, \<open>minute(t)\<close> and \<open>second(t)\<close> return (C \<open>int\<close>s;
  \<open>year\<close> is the full year, \<open>weekday\<close> counts from Sunday = 1).
\<close>

record tmElements =
  tm_year :: int
  tm_month :: int
  tm_day :: int
  tm_wday :: int
  tm_hour :: int
  tm_minute :: int
  tm_second :: int

text \<open>
  The time and timezone libraries are not part of the file. What the file reads from them
  is a parameter of the model: the wall clock \<open>now()\<close> as it answers when the tick counter
  has a given value, the status \<open>timeStatus()\<close>, the conversion \<open>myTZ.toLocal\<close>, and the
  calendar fields of a time. The encoder calls \<open>timeStatus()\<close> up to three times, and
  the library may change its status between two calls: \<open>timeStatus_at E tk j\<close> is what
  call number \<open>j\<close> (0, 1, 2) returns inside the call of the encoder made at tick \<open>tk\<close>.
\<close>

record env =
  now_at :: "tick \<Rightarrow> time_t"
  timeStatus_at :: "tick \<Rightarrow> nat \<Rightarrow> timeStatus_t"
  toLocal :: "time_t \<Rightarrow> time_t"
  breakTime :: "time_t \<Rightarrow> tmElements"

subsection \<open>Formatting\<close>

text \<open>The decimal digit \<open>'0' + d\<close>.\<close>

definition digit :: "nat \<Rightarrow> char" where
  "digit d = ''0123456789'' ! d"

text \<open>An unsigned number in decimal, without padding.\<close>

fun decimal :: "nat \<Rightarrow> string" where
  "decimal n = (if n < 10 then [digit n] else decimal (n div 10) @ [digit (n mod 10)])"

declare decimal.simps [simp del]

text \<open>
  The conversions \<open>%02u\<close> and \<open>%1u\<close> of \<open>printf\<close>: the \<open>int\<close> argument is read as a
  32-bit unsigned number, printed in decimal and padded with zeros on the left up to the
  minimum width. A number with more digits than the width is printed in full.
\<close>

definition fmt_u :: "nat \<Rightarrow> int \<Rightarrow> string" where
  "fmt_u width v =
     (let s = decimal (nat (v mod 2 ^ 32))
      in replicate (width - length s) (CHR ''0'') @ s)"

text \<open>
  \<open>snprintf(buf, n, ...)\<close> stores at most \<open>n - 1\<close> characters of the formatted text and
  the terminating zero; the C string left in the buffer is that prefix.
\<close>

definition snprintf :: "nat \<Rightarrow> string \<Rightarrow> string" where
  "snprintf n s = take (n - 1) s"

subsection \<open>The encoder \<open>IF482_Out\<close>\<close>

definition IF482_FRAME_SIZE :: nat where
  "IF482_FRAME_SIZE = 17"

text \<open>
  The \<open>String\<close> that \<open>IF482_Out(tt)\<close> returns when it is called at tick \<open>tk\<close>. The
  buffers are \<open>buf[14]\<close> and \<open>out[IF482_FRAME_SIZE]\<close>; the result is the C string in
  \<open>out\<close>. The status is read by call 0 in the \<open>switch\<close>, by call 1 in the left operand
  of \<open>||\<close> and, when that one is not \<open>timeSet\<close>, by call 2 in the right operand.
\<close>

definition IF482_Out :: "env \<Rightarrow> tick \<Rightarrow> time_t \<Rightarrow> string" where
  "IF482_Out E tk tt =
     (let t = toLocal E tt;
          mon = (case timeStatus_at E tk 0 of
                   timeSet \<Rightarrow> CHR ''A''
                 | timeNeedsSync \<Rightarrow> CHR ''M''
                 | timeNotSet \<Rightarrow> CHR ''?'');
          buf = (if timeStatus_at E tk 1 = timeSet \<or> timeStatus_at E tk 2 = timeNeedsSync
                 then snprintf 14
                        (fmt_u 2 (tm_year (breakTime E t) - 2000) @
                         fmt_u 2 (tm_month (breakTime E t)) @
                         fmt_u 2 (tm_day (breakTime E t)) @
                         fmt_u 1 (tm_wday (breakTime E t)) @
                         fmt_u 2 (tm_hour (breakTime E t)) @
                         fmt_u 2 (tm_minute (breakTime E t)) @
                         fmt_u 2 (tm_second (breakTime E t)))
                 else snprintf 14 ''000000F000000'')
      in snprintf IF482_FRAME_SIZE ([CHR ''O'', mon, CHR ''L''] @ buf @ [CHR 0x0D]))"



text \<open>
  A calendar time in the range of the telegram: a year of this century and fields in
  their calendar ranges.
\<close>

definition valid_tm :: "tmElements \<Rightarrow> bool" where
  "valid_tm c \<longleftrightarrow>
     2000 \<le> tm_year c \<and> tm_year c \<le> 2099 \<and>
     1 \<le> tm_month c \<and> tm_month c \<le> 12 \<and>
     1 \<le> tm_day c \<and> tm_day c \<le> 31 \<and>
     1 \<le> tm_wday c \<and> tm_wday c \<le> 7 \<and>
     0 \<le> tm_hour c \<and> tm_hour c \<le> 23 \<and>
     0 \<le> tm_minute c \<and> tm_minute c \<le> 59 \<and>
     0 \<le> tm_second c \<and> tm_second c \<le> 59"

text \<open>Two decimal digits of a number below 100.\<close>

definition two_digits :: "int \<Rightarrow> string" where
  "two_digits v = [digit (nat v div 10), digit (nat v mod 10)]"

text \<open>
  The telegram of the format table in the head of the file: 17 bytes, the last one the
  carriage return.
\<close>

definition telegram :: "char \<Rightarrow> tmElements \<Rightarrow> string" where
  "telegram mon c =
     [CHR ''O'', mon, CHR ''L''] @ two_digits (tm_year c mod 100) @ two_digits (tm_month c) @
     two_digits (tm_day c) @ [digit (nat (tm_wday c))] @ two_digits (tm_hour c) @
     two_digits (tm_minute c) @ two_digits (tm_second c) @ [CHR 0x0D]"

text \<open>
  An environment for evaluating the encoder at one target time: the library reports the
  status \<open>st\<close> at every call and the calendar fields \<open>c\<close>.
\<close>

definition env_fixed :: "timeStatus_t \<Rightarrow> tmElements \<Rightarrow> env" where
  "env_fixed st c =
     \<lparr>now_at = (\<lambda>tk. 0), timeStatus_at = (\<lambda>tk j. st), toLocal = (\<lambda>t. t), breakTime = (\<lambda>t. c)\<rparr>"



text \<open>Saturday 2019-02-23 12:34:56.\<close>

definition tm_2019 :: tmElements where
  "tm_2019 = \<lparr>tm_year = 2019, tm_month = 2, tm_day = 23, tm_wday = 7,
              tm_hour = 12, tm_minute = 34, tm_second = 56\<rparr>"

text \<open>Friday 2100-01-01 00:00:00, one second after 2099-12-31 23:59:59.\<close>

definition tm_2100 :: tmElements where
  "tm_2100 = \<lparr>tm_year = 2100, tm_month = 1, tm_day = 1, tm_wday = 6,
              tm_hour = 0, tm_minute = 0, tm_second = 0\<rparr>"

subsection \<open>The worker task \<open>if482_loop\<close>\<close>

definition IF482_PULSE_DURATION :: nat where
  "IF482_PULSE_DURATION = 1000"

text \<open>
  The constants of the build that the file takes from elsewhere: \<open>PPS\<close>, the period of
  the pulse (\<open>RTC_CLK\<close>, \<open>GPS_CLK\<close> or \<open>IF482_PULSE_DURATION\<close>), and
  \<open>timeOffset = pdMS_TO_TICKS(IF482_OFFSET)\<close>, the duration of the transmission of one
  telegram in ticks.
\<close>

record config =
  PPS :: nat
  timeOffset :: tick

text \<open>
  The state of the task: the tick counter of the kernel as the task sees it
  (\<open>xTaskGetTickCount()\<close>), the local variable \<open>wakeTime\<close>, the flag \<open>BitsPending\<close>,
  and what \<open>IF482.print\<close> has written to the serial port, each string with the tick at
  which it was handed over.
\<close>

record worker =
  tickCount :: tick
  wakeTime :: tick
  BitsPending :: bool
  serial :: "(tick \<times> string) list"

text \<open>
  Modelled from the spec: the interrupt handler that notifies the task is not in src/. The
  pulse source "delivers an asynchronous edge notification carrying the monotonic tick
  count at the moment of the edge" (section 6; in the source: "receives moment of call from
  isr"). A notification is that value together with the tick count at which the task
  continues after \<open>xTaskNotifyWait\<close>.
\<close>

record notification =
  edge :: tick
  resumed :: tick

text \<open>
  \<open>xTaskNotifyWait(0x00, ULONG_MAX, &wakeTime, portMAX_DELAY)\<close>: the task is blocked
  until a notification comes, however long that takes; its value is stored in
  \<open>wakeTime\<close>.
\<close>

definition xTaskNotifyWait :: "notification \<Rightarrow> worker \<Rightarrow> worker" where
  "xTaskNotifyWait n w = w\<lparr>tickCount := resumed n, wakeTime := edge n\<rparr>"

text \<open>
  Modelled from the spec: \<open>vTaskDelayUntil\<close> is a function of the FreeRTOS kernel, which
  is not in src/. The spec (4.2) has the worker block "precisely until that tick
  (absolute, not relative, wait)", the target being the previous wake time plus the
  increment, and skip the wait "if computing the target tick yields a value already in the
  past"; the source notes "sets waketime to moment of shot". On the wrapping 32-bit counter
  the target counts as ahead under the comparisons the kernel makes, written out here;
  lemma \<open>shouldDelay_iff\<close> below says what they amount to.
\<close>

definition shouldDelay :: "tick \<Rightarrow> tick \<Rightarrow> tick \<Rightarrow> bool" where
  "shouldDelay now prev timeToWake =
     (if now < prev then timeToWake < prev \<and> timeToWake > now
      else timeToWake < prev \<or> timeToWake > now)"

definition vTaskDelayUntil :: "tick \<Rightarrow> worker \<Rightarrow> worker" where
  "vTaskDelayUntil inc w =
     (let timeToWake = wakeTime w + inc
      in w\<lparr>tickCount := (if shouldDelay (tickCount w) (wakeTime w) timeToWake
                          then timeToWake else tickCount w),
            wakeTime := timeToWake\<rparr>)"

text \<open>
  \<open>IF482.print(IF482_Out(now() + 1))\<close>: the wall clock is read, the telegram for the next
  second is encoded and handed to the serial port. The statement takes no ticks.
\<close>

definition print_telegram :: "env \<Rightarrow> worker \<Rightarrow> worker" where
  "print_telegram E w =
     w\<lparr>serial := serial w @
          [(tickCount w, IF482_Out E (tickCount w) (now_at E (tickCount w) + 1))]\<rparr>"

text \<open>
  A piece of code that contains a loop is run with fuel. \<open>Finished w\<close>: the code has come
  to its end in state \<open>w\<close>. \<open>Unfinished w\<close>: the fuel is used up with the loop still
  going, \<open>w\<close> is the state reached so far.
\<close>

datatype 'a run = Finished 'a | Unfinished 'a

fun state_of :: "'a run \<Rightarrow> 'a" where
  "state_of (Finished w) = w"
| "state_of (Unfinished w) = w"

text \<open>
  The repetition of the up-clocking branch,
  \<open>for (uint8_t i = 1; i <= PPS / IF482_PULSE_DURATION; i++)\<close>, entered with the counter
  \<open>i\<close>; \<open>k\<close> is the bound \<open>PPS / IF482_PULSE_DURATION\<close>. The counter has 8 bits and is
  compared as an \<open>int\<close>. The fuel is the number of passes allowed.
\<close>

fun upclock :: "nat \<Rightarrow> env \<Rightarrow> tick \<Rightarrow> nat \<Rightarrow> 8 word \<Rightarrow> worker \<Rightarrow> worker run" where
  "upclock 0 E shotTime k i w = (if unat i \<le> k then Unfinished w else Finished w)"
| "upclock (Suc fuel) E shotTime k i w =
     (if unat i \<le> k
      then upclock fuel E shotTime k (i + 1) (print_telegram E (vTaskDelayUntil shotTime w))
      else Finished w)"

text \<open>
  One pass of the body of \<open>for (;;)\<close>: wait for the notification \<open>n\<close>, then the branch
  that the preprocessor has selected by comparing \<open>PPS\<close> with \<open>IF482_PULSE_DURATION\<close>.
  In the last branch \<open>shotTime - PPS\<close> is a subtraction of \<open>TickType_t\<close>.
\<close>

definition if482_cycle :: "nat \<Rightarrow> config \<Rightarrow> env \<Rightarrow> tick \<Rightarrow> notification \<Rightarrow> worker \<Rightarrow> worker run" where
  "if482_cycle fuel C E shotTime n w =
     (let w1 = xTaskNotifyWait n w
      in if PPS C = IF482_PULSE_DURATION
         then Finished (print_telegram E (vTaskDelayUntil shotTime w1))
         else if PPS C > IF482_PULSE_DURATION
         then upclock fuel E shotTime (PPS C div IF482_PULSE_DURATION) 1 w1
         else Finished (vTaskDelayUntil (shotTime - of_nat (PPS C)) (print_telegram E w1)))"

text \<open>
  The loop \<open>for (;;)\<close> over the notifications that come, in their order. It is finished
  when every notification of the list is served and the task waits for the next one.
\<close>

fun cycles :: "nat \<Rightarrow> config \<Rightarrow> env \<Rightarrow> tick \<Rightarrow> notification list \<Rightarrow> worker \<Rightarrow> worker run" where
  "cycles fuel C E shotTime [] w = Finished w"
| "cycles fuel C E shotTime (n # ns) w =
     (case if482_cycle fuel C E shotTime n w of
        Finished w' \<Rightarrow> cycles fuel C E shotTime ns w'
      | Unfinished w' \<Rightarrow> Unfinished w')"

text \<open>
  \<open>if482_loop\<close>: \<open>startTime\<close> is the tick count at the start of the task, \<open>aligned\<close> the
  tick count when \<open>sync_clock(now())\<close> has returned at the begin of a new second
  (\<open>sync_clock\<close> is not in src/; the tick at which it returns is a parameter). The shot
  offset is fixed from them once, then the loop runs. The check of the task parameter,
  \<open>configASSERT(((uint32_t)pvParameters) == 1)\<close>, holds for the task that \<open>if482_init\<close>
  creates and is left out.
\<close>

definition if482_loop :: "nat \<Rightarrow> config \<Rightarrow> env \<Rightarrow> tick \<Rightarrow> tick \<Rightarrow> notification list \<Rightarrow> worker \<Rightarrow> worker run" where
  "if482_loop fuel C E startTime aligned ns w =
     (let shotTime = aligned - startTime - timeOffset C
      in cycles fuel C E shotTime ns (w\<lparr>tickCount := aligned, BitsPending := True\<rparr>))"

text \<open>
  \<open>m\<close> passes of the pair "wait until the shot, print", as the up-clocking repetition
  makes them.
\<close>

fun shots :: "nat \<Rightarrow> env \<Rightarrow> tick \<Rightarrow> worker \<Rightarrow> worker" where
  "shots 0 E shotTime w = w"
| "shots (Suc m) E shotTime w = shots m E shotTime (print_telegram E (vTaskDelayUntil shotTime w))"

text \<open>Every entry of a serial log is the telegram of the next second at its tick.\<close>

definition next_second :: "env \<Rightarrow> (tick \<times> string) list \<Rightarrow> bool" where
  "next_second E xs \<longleftrightarrow> list_all (\<lambda>(tk, s). s = IF482_Out E tk (now_at E tk + 1)) xs"

subsection \<open>The set-up \<open>if482_init\<close>\<close>

text \<open>
  What the set-up touches: the global task handle \<open>ClockTask\<close> (0 is the null handle),
  the serial port and the pulse.
\<close>

record sys =
  ClockTask :: nat
  serial_begun :: bool
  pps_period :: "nat option"
  pps_running :: bool

datatype abort = AssertFailed

text \<open>
  \<open>created\<close> is the outcome of \<open>xTaskCreatePinnedToCore\<close>: the handle of the new task, or
  \<open>None\<close> when the task could not be created and the handle variable is left as it was.
  A failed \<open>assert\<close> aborts; otherwise the function returns 1. Of \<open>IF482.begin\<close>,
  \<open>pps_init\<close> and \<open>pps_start\<close>, which are not in src/, the model records that they were
  called.
\<close>

definition if482_init :: "config \<Rightarrow> nat option \<Rightarrow> sys \<Rightarrow> abort + (int \<times> sys)" where
  "if482_init C created s =
     (let s1 = s\<lparr>serial_begun := True\<rparr>;
          s2 = (case created of Some h \<Rightarrow> s1\<lparr>ClockTask := h\<rparr> | None \<Rightarrow> s1)
      in if ClockTask s2 = 0 then Inl AssertFailed
         else Inr (1, s2\<lparr>pps_period := Some (PPS C), pps_running := True\<rparr>))"

subsection \<open>Concrete inputs\<close>

text \<open>
  A clock for one day: the wall clock counts the seconds since local midnight of Saturday
  2019-02-23 and advances every 1000 ticks; the status is \<open>timeSet\<close>.
\<close>

definition env_clock :: env where
  "env_clock =
     \<lparr>now_at = (\<lambda>tk. of_nat (unat tk div 1000)),
      timeStatus_at = (\<lambda>tk j. timeSet),
      toLocal = (\<lambda>t. t),
      breakTime = (\<lambda>t. \<lparr>tm_year = 2019, tm_month = 2, tm_day = 23, tm_wday = 7,
                         tm_hour = int (unat t div 3600 mod 24),
                         tm_minute = int (unat t div 60 mod 60),
                         tm_second = int (unat t mod 60)\<rparr>)\<rparr>"

definition worker0 :: worker where
  "worker0 = \<lparr>tickCount = 0, wakeTime = 0, BitsPending = False, serial = []\<rparr>"

definition pulse :: "tick \<Rightarrow> notification" where
  "pulse tk = \<lparr>edge = tk, resumed = tk\<rparr>"

definition sys0 :: sys where
  "sys0 = \<lparr>ClockTask = 0, serial_begun = False, pps_period = None, pps_running = False\<rparr>"

section \<open>Properties of the encoder\<close>

lemma fmt_u_two: "0 \<le> v \<Longrightarrow> v < 100 \<Longrightarrow> fmt_u 2 v = two_digits v"
  by (simp add: fmt_u_def two_digits_def decimal.simps [of "nat v"]
      decimal.simps [of "nat v div 10"] Let_def digit_def)

lemma fmt_u_one: "0 \<le> v \<Longrightarrow> v < 10 \<Longrightarrow> fmt_u 1 v = [digit (nat v)]"
proof -
  assume "0 \<le> v" "v < 10"
  then have "nat v < 10" and "nat (v mod 2 ^ 32) = nat v" by simp_all
  then show ?thesis
    by (simp add: fmt_u_def decimal.simps [of "nat v"])
qed

lemma length_two_digits: "length (two_digits v) = 2"
  by (simp add: two_digits_def)

text \<open>
  With a confident status, the same at every call, and a calendar time in range, the
  string returned is the first
  16 bytes of the telegram: every field is there, the carriage return is not, because
  \<open>out\<close> has room for 16 characters and the terminating zero.
\<close>

lemma IF482_Out_valid:
  assumes st: "st = timeSet \<or> st = timeNeedsSync"
    and r: "timeStatus_at E tk 0 = st" "timeStatus_at E tk 1 = st" "timeStatus_at E tk 2 = st"
    and v: "valid_tm (breakTime E (toLocal E tt))"
  shows "IF482_Out E tk tt =
           take 16 (telegram (if st = timeSet then CHR ''A'' else CHR ''M'')
                      (breakTime E (toLocal E tt)))"
proof -
  let ?c = "breakTime E (toLocal E tt)"
  have y: "fmt_u 2 (tm_year ?c - 2000) = two_digits (tm_year ?c mod 100)"
  proof -
    have "tm_year ?c mod 100 = tm_year ?c - 2000"
      using v unfolding valid_tm_def by presburger
    moreover have "fmt_u 2 (tm_year ?c - 2000) = two_digits (tm_year ?c - 2000)"
      using v unfolding valid_tm_def by (intro fmt_u_two) simp_all
    ultimately show ?thesis by simp
  qed
  have f: "fmt_u 2 (tm_month ?c) = two_digits (tm_month ?c)"
    "fmt_u 2 (tm_day ?c) = two_digits (tm_day ?c)"
    "fmt_u 2 (tm_hour ?c) = two_digits (tm_hour ?c)"
    "fmt_u 2 (tm_minute ?c) = two_digits (tm_minute ?c)"
    "fmt_u 2 (tm_second ?c) = two_digits (tm_second ?c)"
    using v unfolding valid_tm_def by (simp_all add: fmt_u_two)
  have w: "fmt_u 1 (tm_wday ?c) = [digit (nat (tm_wday ?c))]"
    using v unfolding valid_tm_def by (intro fmt_u_one) simp_all
  show ?thesis
    using st r
    by (auto simp: IF482_Out_def Let_def y f w snprintf_def telegram_def
        IF482_FRAME_SIZE_def length_two_digits two_digits_def simp del: One_nat_def)
qed

lemmas encoder_eval = IF482_Out_def env_fixed_def tm_2019_def tm_2100_def fmt_u_def
  decimal.simps digit_def snprintf_def IF482_FRAME_SIZE_def Let_def telegram_def two_digits_def

text \<open>
  With the status \<open>timeNotSet\<close> at every call the string returned is the same for every
  time.
\<close>

lemma IF482_Out_unknown:
  assumes "timeStatus_at E tk 0 = timeNotSet" "timeStatus_at E tk 1 = timeNotSet"
    "timeStatus_at E tk 2 = timeNotSet"
  shows "IF482_Out E tk tt = ''O?L000000F000000''"
  using assms by (simp add: IF482_Out_def snprintf_def IF482_FRAME_SIZE_def)

text \<open>
  Claim C1. For a valid calendar time and the status \<open>timeSet\<close> or \<open>timeNeedsSync\<close> the
  encoder is to return the 17 bytes of the telegram, the carriage return last. At
  Saturday 2019-02-23 12:34:56 with the status \<open>timeSet\<close> the telegram is
  \<open>OAL1902237123456\<close> followed by the carriage return; the encoder returns its first 16
  bytes only. Lemma \<open>IF482_Out_valid\<close> shows the same for every valid time: all fields
  match, the last byte is missing.
\<close>

theorem IF482_Out_without_carriage_return:
  "IF482_Out (env_fixed timeSet tm_2019) 0 0 = ''OAL1902237123456'' \<and>
   length (IF482_Out (env_fixed timeSet tm_2019) 0 0) = 16 \<and>
   telegram (CHR ''A'') tm_2019 = ''OAL1902237123456'' @ [CHR 0x0D]"
  by (simp add: encoder_eval)

text \<open>
  Claim C2. For the status \<open>timeNotSet\<close> the encoder is to return the 17 bytes
  \<open>O?L000000F000000\<close> and the carriage return, whatever the time. It returns the 16
  bytes \<open>O?L000000F000000\<close> without the carriage return, here at two different times;
  lemma \<open>IF482_Out_unknown\<close> shows it for every time.
\<close>

theorem IF482_Out_unknown_without_carriage_return:
  "IF482_Out (env_fixed timeNotSet tm_2019) 0 0 = ''O?L000000F000000'' \<and>
   IF482_Out (env_fixed timeNotSet tm_2100) 0 0 = ''O?L000000F000000'' \<and>
   ''O?L000000F000000'' \<noteq> ''O?L000000F000000'' @ [CHR 0x0D]"
  by (simp add: encoder_eval)

text \<open>
  Claim C6. The year is to be rendered modulo 100 in two digits, so that the second after
  2099-12-31 23:59:59 has the year field \<open>00\<close>. The encoder prints \<open>year(t) - 2000\<close>,
  which is 100 at Friday 2100-01-01 00:00:00: the year takes three bytes, every later
  field is shifted by one byte and the last digit of the second is cut off. Bytes 4 and 5
  of the string are \<open>10\<close>, not \<open>00\<close>.
\<close>

theorem IF482_Out_year_2100:
  "IF482_Out (env_fixed timeSet tm_2100) 0 0 = ''OAL1000101600000'' \<and>
   take 2 (drop 3 (IF482_Out (env_fixed timeSet tm_2100) 0 0)) = ''10'' \<and>
   take 16 (telegram (CHR ''A'') tm_2100) = ''OAL0001016000000''"
  by (simp add: encoder_eval)




section \<open>Properties of the worker task\<close>

subsection \<open>The steps\<close>

text \<open>
  The comparisons of \<open>shouldDelay\<close> amount to this: the task is delayed when fewer ticks
  have passed since the previous wake time than the increment asks for, counted on the
  wrapping counter.
\<close>

lemma shouldDelay_iff: "shouldDelay now prev (prev + inc) \<longleftrightarrow> now - prev < inc"
  unfolding shouldDelay_def by unat_arith

lemma vTaskDelayUntil_simps [simp]:
  "tickCount (vTaskDelayUntil inc w) =
     (if tickCount w - wakeTime w < inc then wakeTime w + inc else tickCount w)"
  "wakeTime (vTaskDelayUntil inc w) = wakeTime w + inc"
  "serial (vTaskDelayUntil inc w) = serial w"
  by (simp_all add: vTaskDelayUntil_def Let_def shouldDelay_iff)

lemma print_telegram_simps [simp]:
  "tickCount (print_telegram E w) = tickCount w"
  "wakeTime (print_telegram E w) = wakeTime w"
  "serial (print_telegram E w) =
     serial w @ [(tickCount w, IF482_Out E (tickCount w) (now_at E (tickCount w) + 1))]"
  by (simp_all add: print_telegram_def)

lemma xTaskNotifyWait_simps [simp]:
  "tickCount (xTaskNotifyWait n w) = resumed n"
  "wakeTime (xTaskNotifyWait n w) = edge n"
  "serial (xTaskNotifyWait n w) = serial w"
  by (simp_all add: xTaskNotifyWait_def)

lemma next_second_append [simp]:
  "next_second E (xs @ ys) \<longleftrightarrow> next_second E xs \<and> next_second E ys"
  by (simp add: next_second_def)

lemma next_second_Nil [simp]: "next_second E []"
  by (simp add: next_second_def)

lemma next_second_Cons [simp]:
  "next_second E ((tk, s) # xs) \<longleftrightarrow>
     s = IF482_Out E tk (now_at E tk + 1) \<and> next_second E xs"
  by (simp add: next_second_def)

subsection \<open>The up-clocking repetition\<close>

lemma shots_serial:
  "\<exists>new. serial (shots m E sh w) = serial w @ new \<and> length new = m \<and> next_second E new"
proof (induction m arbitrary: w)
  case 0
  then show ?case by simp
next
  case (Suc m)
  obtain new where new: "serial (shots m E sh (print_telegram E (vTaskDelayUntil sh w))) =
      serial (print_telegram E (vTaskDelayUntil sh w)) @ new" "length new = m" "next_second E new"
    using Suc.IH by blast
  let ?tk = "tickCount (vTaskDelayUntil sh w)"
  have "serial (shots (Suc m) E sh w) =
      serial w @ ((?tk, IF482_Out E ?tk (now_at E ?tk + 1)) # new)"
    using new(1) by simp
  moreover have "length ((?tk, IF482_Out E ?tk (now_at E ?tk + 1)) # new) = Suc m"
    using new(2) by simp
  moreover have "next_second E ((?tk, IF482_Out E ?tk (now_at E ?tk + 1)) # new)"
    using new(3) by simp
  ultimately show ?case by blast
qed

lemma shots_wakeTime: "wakeTime (shots m E sh w) = wakeTime w + of_nat m * sh"
  by (induction m arbitrary: w) (simp_all add: algebra_simps)

text \<open>
  With a bound below 255 the repetition comes to its end, given fuel for the passes that
  are left, and has made exactly these passes.
\<close>

lemma upclock_returns:
  assumes "k < 255" and "unat i \<le> k + 1" and "k + 1 - unat i \<le> fuel"
  shows "upclock fuel E sh k i w = Finished (shots (k + 1 - unat i) E sh w)"
  using assms
proof (induction fuel arbitrary: i w)
  case 0
  then show ?case by simp
next
  case (Suc fuel)
  show ?case
  proof (cases "unat i \<le> k")
    case False
    with Suc.prems show ?thesis by simp
  next
    case True
    with Suc.prems have u: "unat (i + 1) = unat i + 1"
      by (simp add: unat_word_ariths)
    with True Suc.prems
    have "upclock fuel E sh k (i + 1) (print_telegram E (vTaskDelayUntil sh w)) =
        Finished (shots (k + 1 - unat (i + 1)) E sh (print_telegram E (vTaskDelayUntil sh w)))"
      by (intro Suc.IH) simp_all
    moreover have "k + 1 - unat i = Suc (k + 1 - unat (i + 1))"
      using True u by simp
    ultimately show ?thesis using True by simp
  qed
qed

text \<open>
  With a bound of 255 or more the 8-bit counter never exceeds it: no amount of fuel brings
  the repetition to its end.
\<close>

lemma upclock_never_returns:
  "255 \<le> k \<Longrightarrow> \<exists>w'. upclock fuel E sh k i w = Unfinished w'"
proof (induction fuel arbitrary: i w)
  case 0
  have "unat i < 256" using unsigned_less [of i, where ?'a = nat] by simp
  with 0 show ?case by simp
next
  case (Suc fuel)
  have "unat i < 256" using unsigned_less [of i, where ?'a = nat] by simp
  with Suc show ?case by simp
qed

lemma upclock_serial:
  "\<exists>new. serial (state_of (upclock fuel E sh k i w)) = serial w @ new \<and> next_second E new"
proof (induction fuel arbitrary: i w)
  case 0
  then show ?case by simp
next
  case (Suc fuel)
  show ?case
  proof (cases "unat i \<le> k")
    case False
    then show ?thesis by simp
  next
    case True
    obtain new where
      "serial (state_of (upclock fuel E sh k (i + 1) (print_telegram E (vTaskDelayUntil sh w)))) =
        serial (print_telegram E (vTaskDelayUntil sh w)) @ new" "next_second E new"
      using Suc.IH by blast
    with True show ?thesis by simp
  qed
qed

lemma upclock_unfold:
  "upclock fuel E sh k i w =
     (if unat i \<le> k
      then (if fuel = 0 then Unfinished w
            else upclock (fuel - 1) E sh k (i + 1) (print_telegram E (vTaskDelayUntil sh w)))
      else Finished w)"
  by (cases fuel) simp_all

subsection \<open>Evaluation at concrete inputs\<close>

lemma vTaskDelayUntil_eval:
  "vTaskDelayUntil inc \<lparr>tickCount = tk, wakeTime = p, BitsPending = b, serial = xs\<rparr> =
     \<lparr>tickCount = (if tk - p < inc then p + inc else tk), wakeTime = p + inc,
      BitsPending = b, serial = xs\<rparr>"
  by (simp add: vTaskDelayUntil_def Let_def shouldDelay_iff)

lemma print_telegram_eval:
  "print_telegram E \<lparr>tickCount = tk, wakeTime = p, BitsPending = b, serial = xs\<rparr> =
     \<lparr>tickCount = tk, wakeTime = p, BitsPending = b,
      serial = xs @ [(tk, IF482_Out E tk (now_at E tk + 1))]\<rparr>"
  by (simp add: print_telegram_def)

lemma xTaskNotifyWait_eval:
  "xTaskNotifyWait (pulse t) \<lparr>tickCount = tk, wakeTime = p, BitsPending = b, serial = xs\<rparr> =
     \<lparr>tickCount = t, wakeTime = t, BitsPending = b, serial = xs\<rparr>"
  by (simp add: xTaskNotifyWait_def pulse_def)

lemma now_at_env_clock: "now_at env_clock tk = of_nat (unat tk div 1000)"
  by (simp add: env_clock_def)

lemma env_clock_telegrams:
  "IF482_Out env_clock tk 6 = ''OAL1902237000006''"
  "IF482_Out env_clock tk 7 = ''OAL1902237000007''"
  "IF482_Out env_clock tk 8 = ''OAL1902237000008''"
  by (simp_all add: IF482_Out_def env_clock_def fmt_u_def decimal.simps digit_def snprintf_def
      IF482_FRAME_SIZE_def Let_def)

lemmas worker_eval = if482_cycle_def if482_loop_def worker0_def IF482_PULSE_DURATION_def
  xTaskNotifyWait_eval vTaskDelayUntil_eval print_telegram_eval now_at_env_clock
  env_clock_telegrams

subsection \<open>Up-clocking\<close>

text \<open>
  Claim C3, as stated: in up-clocking mode with \<open>k = PPS / 1000\<close> one notification causes
  exactly \<open>k\<close> telegrams, and they encode strictly increasing seconds, one more on each
  repetition. With \<open>PPS = 4000\<close>, a shot offset of 300 ticks and an edge at tick 5000 the
  four telegrams go out at the ticks 5300, 5600, 5900 and 6200; the wall clock, read anew
  for each, says second 5 three times and then second 6, so the first three telegrams are
  the same.
\<close>

theorem upclock_repeats_second:
  "if482_cycle 4 \<lparr>PPS = 4000, timeOffset = 100\<rparr> env_clock 300 (pulse 5000) worker0 =
     Finished \<lparr>tickCount = 6200, wakeTime = 6200, BitsPending = False,
       serial = [(5300, ''OAL1902237000006''), (5600, ''OAL1902237000006''),
                 (5900, ''OAL1902237000006''), (6200, ''OAL1902237000007'')]\<rparr> \<and>
   now_at env_clock 5300 + 1 = 6 \<and> now_at env_clock 5600 + 1 = 6 \<and>
   now_at env_clock 5900 + 1 = 6 \<and> now_at env_clock 6200 + 1 = 7"
  by (simp add: worker_eval upclock_unfold)

text \<open>
  When the task is no later than a shot offset behind its wake time, the passes print at
  the wake time plus one, two, ... shot offsets: each pass waits first and prints then.
\<close>

lemma shots_ticks:
  assumes "tickCount w - wakeTime w \<le> sh"
  shows "map fst (serial (shots m E sh w)) =
           map fst (serial w) @ map (\<lambda>j. wakeTime w + of_nat (Suc j) * sh) [0..<m]"
  using assms
proof (induction m arbitrary: w)
  case 0
  then show ?case by simp
next
  case (Suc m)
  let ?w1 = "print_telegram E (vTaskDelayUntil sh w)"
  have tk: "tickCount ?w1 = wakeTime w + sh"
  proof (cases "tickCount w - wakeTime w < sh")
    case True
    then show ?thesis by simp
  next
    case False
    with Suc.prems have "tickCount w - wakeTime w = sh" by simp
    then have "tickCount w = wakeTime w + sh" by (simp add: algebra_simps)
    with False show ?thesis by simp
  qed
  have wt: "wakeTime ?w1 = wakeTime w + sh" by simp
  have "tickCount ?w1 - wakeTime ?w1 \<le> sh" unfolding tk wt by simp
  then have "map fst (serial (shots m E sh ?w1)) =
      map fst (serial ?w1) @ map (\<lambda>j. wakeTime ?w1 + of_nat (Suc j) * sh) [0..<m]"
    by (rule Suc.IH)
  moreover have "map fst (serial ?w1) = map fst (serial w) @ [wakeTime w + sh]"
    using tk by simp
  moreover have "map (\<lambda>j. wakeTime w + of_nat (Suc j) * sh) [0..<Suc m] =
      (wakeTime w + sh) # map (\<lambda>j. wakeTime ?w1 + of_nat (Suc j) * sh) [0..<m]"
    unfolding wt by (simp only: map_upt_Suc) (simp add: algebra_simps)
  ultimately show ?case by simp
qed

text \<open>
  Claim C3, amended: in up-clocking mode with \<open>k = PPS / 1000\<close> below 255, one
  notification causes exactly \<open>k\<close> telegrams, each printed after a wait of one shot
  offset: when the worker is resumed no later than a shot offset \<open>S\<close> after the edge,
  they go out at the ticks edge + \<open>S\<close>, edge + \<open>2S\<close>, ..., edge + \<open>kS\<close>. Each is encoded
  from the wall clock read at its own tick plus one second, so two of them encode the same
  second when the clock has not advanced between them. The wake time ends \<open>k\<close> shot
  offsets after the edge. (Lemma \<open>upclock_never_returns\<close>: from \<open>k = 255\<close> on the
  repetition does not end.)
\<close>

theorem upclock_cycle_emissions:
  assumes up: "IF482_PULSE_DURATION < PPS C"
    and k: "PPS C div IF482_PULSE_DURATION < 255"
    and fuel: "PPS C div IF482_PULSE_DURATION \<le> fuel"
  shows "\<exists>w' new. if482_cycle fuel C E sh n w = Finished w' \<and>
           serial w' = serial w @ new \<and>
           length new = PPS C div IF482_PULSE_DURATION \<and>
           next_second E new \<and>
           wakeTime w' = edge n + of_nat (PPS C div IF482_PULSE_DURATION) * sh \<and>
           (resumed n - edge n \<le> sh \<longrightarrow>
              map fst new =
                map (\<lambda>j. edge n + of_nat (Suc j) * sh) [0..<PPS C div IF482_PULSE_DURATION])"
proof -
  let ?k = "PPS C div IF482_PULSE_DURATION"
  let ?w1 = "xTaskNotifyWait n w"
  have "upclock fuel E sh ?k 1 ?w1 = Finished (shots (?k + 1 - unat (1 :: 8 word)) E sh ?w1)"
    using k fuel by (intro upclock_returns) simp_all
  then have c: "if482_cycle fuel C E sh n w = Finished (shots ?k E sh ?w1)"
    using up by (simp add: if482_cycle_def)
  obtain new where new: "serial (shots ?k E sh ?w1) = serial ?w1 @ new" "length new = ?k"
      "next_second E new"
    using shots_serial by blast
  have ticks: "map fst new = map (\<lambda>j. edge n + of_nat (Suc j) * sh) [0..<?k]"
    if "resumed n - edge n \<le> sh"
  proof -
    from that have "tickCount ?w1 - wakeTime ?w1 \<le> sh" by simp
    then have "map fst (serial (shots ?k E sh ?w1)) =
        map fst (serial ?w1) @ map (\<lambda>j. wakeTime ?w1 + of_nat (Suc j) * sh) [0..<?k]"
      by (rule shots_ticks)
    with new(1) show ?thesis by simp
  qed
  from c new ticks show ?thesis
    by (simp add: shots_wakeTime)
qed

theorem upclock_cycle_emissions_witness:
  "IF482_PULSE_DURATION < PPS \<lparr>PPS = 4000, timeOffset = 100\<rparr> \<and>
   PPS \<lparr>PPS = 4000, timeOffset = 100\<rparr> div IF482_PULSE_DURATION < 255 \<and>
   PPS \<lparr>PPS = 4000, timeOffset = 100\<rparr> div IF482_PULSE_DURATION \<le> 4 \<and>
   resumed (pulse 5000) - edge (pulse 5000) \<le> 300 \<and>
   (\<exists>w' new. if482_cycle 4 \<lparr>PPS = 4000, timeOffset = 100\<rparr> env_clock 300 (pulse 5000) worker0
        = Finished w' \<and>
      serial w' = serial worker0 @ new \<and> length new = 4 \<and> next_second env_clock new \<and>
      wakeTime w' = 6200 \<and> map fst new = [5300, 5600, 5900, 6200])"
proof -
  have u: "[0..<4] = [0, 1, 2, 3]" by (simp add: upt_rec)
  show ?thesis
    using upclock_cycle_emissions
      [of "\<lparr>PPS = 4000, timeOffset = 100\<rparr>" 4 env_clock 300 "pulse 5000" worker0]
    by (simp add: IF482_PULSE_DURATION_def pulse_def u)
qed

subsection \<open>Down-clocking\<close>

text \<open>
  Claim C4, as stated: in down-clocking mode, a pulse period above 1000 ticks, the worker
  prints at the edge tick without waiting and then moves the wake time by shot offset minus
  pulse period. With \<open>PPS = 2000\<close> the branch taken is the up-clocking one: after the edge
  at tick 5000 the worker waits, prints at tick 5300 and again at tick 5600, and the wake
  time has moved by two shot offsets.
\<close>

theorem period_2000_is_upclocking:
  "if482_cycle 2 \<lparr>PPS = 2000, timeOffset = 100\<rparr> env_clock 300 (pulse 5000) worker0 =
     Finished \<lparr>tickCount = 5600, wakeTime = 5600, BitsPending = False,
       serial = [(5300, ''OAL1902237000006''), (5600, ''OAL1902237000006'')]\<rparr>"
  by (simp add: worker_eval upclock_unfold)

text \<open>
  Claim C4, amended: in down-clocking mode, which is \<open>PPS\<close> below 1000, the worker prints
  one telegram at the tick at which the notification has resumed it (the edge tick, when
  it is resumed at once), without waiting; then \<open>vTaskDelayUntil\<close> moves the wake time
  from the edge by shot offset minus \<open>PPS\<close> and blocks until that tick when it counts as
  ahead.
\<close>

theorem downclock_cycle:
  assumes "PPS C < IF482_PULSE_DURATION"
  shows "\<exists>w'. if482_cycle fuel C E sh n w = Finished w' \<and>
           serial w' =
             serial w @ [(resumed n, IF482_Out E (resumed n) (now_at E (resumed n) + 1))] \<and>
           wakeTime w' = edge n + (sh - of_nat (PPS C)) \<and>
           tickCount w' = (if resumed n - edge n < sh - of_nat (PPS C)
                           then edge n + (sh - of_nat (PPS C)) else resumed n)"
  using assms by (simp add: if482_cycle_def)

theorem downclock_cycle_witness:
  "PPS \<lparr>PPS = 500, timeOffset = 100\<rparr> < IF482_PULSE_DURATION \<and>
   (\<exists>w'. if482_cycle 0 \<lparr>PPS = 500, timeOffset = 100\<rparr> env_clock 800 (pulse 5000) worker0
        = Finished w' \<and>
      serial w' = [(5000, ''OAL1902237000006'')] \<and> wakeTime w' = 5300 \<and> tickCount w' = 5300)"
  using downclock_cycle [of "\<lparr>PPS = 500, timeOffset = 100\<rparr>" 0 env_clock 800 "pulse 5000" worker0]
  by (simp add: IF482_PULSE_DURATION_def pulse_def worker0_def now_at_env_clock
      env_clock_telegrams)

lemma unat_wrapped_difference:
  fixes sh :: tick
  assumes "unat sh < P" and "P < 2 ^ 32"
  shows "unat (sh - of_nat P) = 2 ^ 32 - (P - unat sh)"
  using assms by (subst unat_sub_if') (simp add: unat_of_nat word_less_nat_alt)

text \<open>
  Claim C9. In down-clocking mode the increment \<open>shotTime - PPS\<close> is computed on
  \<open>TickType_t\<close>: when the shot offset is smaller than \<open>PPS\<close> it wraps to
  \<open>2^32 - (PPS - shotTime)\<close>, more than \<open>2^32 - 1000\<close> ticks. The worker is then blocked
  after the emission for that many ticks less the lag with which it was resumed after the
  edge (and it is blocked whenever that lag is shorter than the increment).
\<close>

theorem downclock_delay_wraps:
  assumes down: "PPS C < IF482_PULSE_DURATION"
    and small: "unat sh < PPS C"
  shows "unat (sh - of_nat (PPS C)) = 2 ^ 32 - (PPS C - unat sh) \<and>
         2 ^ 32 - 1000 < unat (sh - of_nat (PPS C)) \<and>
         (\<exists>w'. if482_cycle fuel C E sh n w = Finished w' \<and>
            (resumed n - edge n < sh - of_nat (PPS C) \<longrightarrow>
               unat (tickCount w' - resumed n) =
                 2 ^ 32 - (PPS C - unat sh) - unat (resumed n - edge n)))"
proof -
  let ?inc = "sh - of_nat (PPS C)"
  let ?lag = "resumed n - edge n"
  have P: "PPS C < 1000" using down by (simp add: IF482_PULSE_DURATION_def)
  have inc: "unat ?inc = 2 ^ 32 - (PPS C - unat sh)"
    using small P by (intro unat_wrapped_difference) simp_all
  have big: "2 ^ 32 - 1000 < unat ?inc" using inc P small by simp
  let ?w' = "vTaskDelayUntil ?inc (print_telegram E (xTaskNotifyWait n w))"
  have c: "if482_cycle fuel C E sh n w = Finished ?w'"
    using down by (simp add: if482_cycle_def)
  have d: "unat (tickCount ?w' - resumed n) = 2 ^ 32 - (PPS C - unat sh) - unat ?lag"
    if lt: "?lag < ?inc"
  proof -
    have tk: "tickCount ?w' = edge n + ?inc" using lt by simp
    have e: "tickCount ?w' - resumed n = ?inc - ?lag" unfolding tk by simp
    have u: "unat (?inc - ?lag) = unat ?inc - unat ?lag"
      using lt by (simp add: unat_sub word_le_less_eq)
    show ?thesis by (simp only: e u inc)
  qed
  from c d inc big show ?thesis by blast
qed

theorem downclock_delay_wraps_witness:
  "PPS \<lparr>PPS = 500, timeOffset = 100\<rparr> < IF482_PULSE_DURATION \<and>
   unat (300 :: tick) < PPS \<lparr>PPS = 500, timeOffset = 100\<rparr> \<and>
   unat ((300 :: tick) - of_nat (PPS \<lparr>PPS = 500, timeOffset = 100\<rparr>)) = 4294967096 \<and>
   resumed (pulse 5000) - edge (pulse 5000) < 300 - of_nat (PPS \<lparr>PPS = 500, timeOffset = 100\<rparr>) \<and>
   (\<exists>w'. if482_cycle 0 \<lparr>PPS = 500, timeOffset = 100\<rparr> env_clock 300 (pulse 5000) worker0
        = Finished w' \<and>
      unat (tickCount w' - resumed (pulse 5000)) = 4294967096)"
  using downclock_delay_wraps
    [of "\<lparr>PPS = 500, timeOffset = 100\<rparr>" 300 0 env_clock "pulse 5000" worker0]
  by (simp add: IF482_PULSE_DURATION_def pulse_def word_gt_0)

subsection \<open>Equal rate\<close>





subsection \<open>The next second\<close>

lemma cycle_serial:
  "\<exists>new. serial (state_of (if482_cycle fuel C E sh n w)) = serial w @ new \<and> next_second E new"
proof -
  consider "PPS C = IF482_PULSE_DURATION" | "PPS C > IF482_PULSE_DURATION"
    | "PPS C < IF482_PULSE_DURATION" by linarith
  then show ?thesis
  proof cases
    case 1
    then show ?thesis by (simp add: if482_cycle_def)
  next
    case 2
    obtain new where "serial (state_of (upclock fuel E sh (PPS C div IF482_PULSE_DURATION) 1
        (xTaskNotifyWait n w))) = serial (xTaskNotifyWait n w) @ new" "next_second E new"
      using upclock_serial by blast
    with 2 show ?thesis by (simp add: if482_cycle_def)
  next
    case 3
    then show ?thesis by (simp add: if482_cycle_def)
  qed
qed

lemma cycles_serial:
  "\<exists>new. serial (state_of (cycles fuel C E sh ns w)) = serial w @ new \<and> next_second E new"
proof (induction ns arbitrary: w)
  case Nil
  then show ?case by simp
next
  case (Cons n ns)
  obtain new where new: "serial (state_of (if482_cycle fuel C E sh n w)) = serial w @ new"
      "next_second E new"
    using cycle_serial by blast
  show ?case
  proof (cases "if482_cycle fuel C E sh n w")
    case (Unfinished w')
    with new show ?thesis by simp
  next
    case (Finished w')
    obtain new' where "serial (state_of (cycles fuel C E sh ns w')) = serial w' @ new'"
        "next_second E new'"
      using Cons.IH by blast
    with new Finished show ?thesis by simp
  qed
qed

text \<open>
  Claim C7. Whatever the mode (any \<open>PPS\<close>), the notifications and the fuel, every telegram
  that the worker has written to the serial port, in the state it ends in or has reached,
  is the encoding of the wall clock read at that tick plus one second; and that second is
  never the one read.
\<close>

theorem every_telegram_is_for_next_second:
  "\<exists>new. serial (state_of (if482_loop fuel C E startTime aligned ns w)) = serial w @ new \<and>
          next_second E new \<and> (\<forall>tk. now_at E tk + 1 \<noteq> now_at E tk)"
  using cycles_serial [of fuel C E "aligned - startTime - timeOffset C" ns
      "w\<lparr>tickCount := aligned, BitsPending := True\<rparr>"]
  by (simp add: if482_loop_def)

section \<open>Properties of the set-up\<close>

text \<open>
  Claim C10. Whenever \<open>if482_init\<close> returns, it returns 1. When the task could not be
  created and the handle is null the assertion aborts; there is no other way out and no
  error value.
\<close>

theorem if482_init_returns_1:
  "(\<forall>r s'. if482_init C created s = Inr (r, s') \<longrightarrow> r = 1) \<and>
   (created = None \<and> ClockTask s = 0 \<longrightarrow> if482_init C created s = Inl AssertFailed) \<and>
   (\<forall>e. if482_init C created s = Inl e \<longrightarrow> e = AssertFailed)"
  by (auto simp: if482_init_def Let_def split: option.splits if_splits)

theorem if482_init_returns_1_witness:
  "if482_init \<lparr>PPS = 1000, timeOffset = 100\<rparr> (Some 7) sys0 =
     Inr (1, \<lparr>ClockTask = 7, serial_begun = True, pps_period = Some 1000, pps_running = True\<rparr>) \<and>
   if482_init \<lparr>PPS = 1000, timeOffset = 100\<rparr> None sys0 = Inl AssertFailed"
  using if482_init_returns_1 [of "\<lparr>PPS = 1000, timeOffset = 100\<rparr>" "Some 7" sys0]
    if482_init_returns_1 [of "\<lparr>PPS = 1000, timeOffset = 100\<rparr>" None sys0]
  by (simp add: if482_init_def sys0_def)

end
